theory Spec2Isabelle
  imports Main "HOL-Library.Word"
begin

section \<open>Lowering of custom datatypes (src/pass/lower_custom_datatypes.cc)\<close>

subsection \<open>Type descriptors\<close>

text \<open>
  Modelled from the spec: the type descriptor \<open>DataType\<close> is declared outside the
  source file. The spec gives it as \<open>{ type_code: u8, bit_width: u16, lane_count: u16 }\<close>;
  the source reads it through \<open>code()\<close>, \<open>bits()\<close> and \<open>lanes()\<close>.
\<close>

type_synonym type_code = "8 word"

record DataType =
  code :: type_code
  bits :: "16 word"
  lanes :: "16 word"

text \<open>
  Modelled from the spec: \<open>DataType::UInt(bits, lanes = 1)\<close> builds the unsigned-integer
  descriptor of the given width; its lane count defaults to the scalar one. The numeric
  code of the unsigned-integer kind is the well-known constant \<open>kDLUInt\<close>.
\<close>

definition kDLUInt :: type_code where
  "kDLUInt = 1"

definition UInt :: "16 word \<Rightarrow> 16 word \<Rightarrow> DataType" where
  "UInt b l = \<lparr>code = kDLUInt, bits = b, lanes = l\<rparr>"

subsection \<open>The tree\<close>

text \<open>
  Modelled from the spec: the node hierarchy and its generic traversal are declared outside
  the source file. The nodes below are the ones the source names (\<open>Cast\<close>, \<open>FloatImm\<close>,
  \<open>Load\<close>, \<open>Allocate\<close>, the thirteen instances of \<open>DEFINE_MUTATE__\<close>, and the variable
  behind \<open>buffer_var\<close>) together with the leaves and statements needed to build a tree:
  an integer immediate, \<open>Store\<close> and \<open>Evaluate\<close>. The thirteen operations generated by the
  macro differ only in their tag, so they are one constructor carrying the tag.
  A floating-point immediate holds the 64 bits of its value; the pass never looks at them.
\<close>

record Var =
  name_hint :: string
  vdtype :: DataType

datatype binop = Add | Sub | Mul | Div | Mod | Min | Max | EQ | NE | LT | LE | GT | GE

datatype Expr =
    Variable Var
  | IntImm DataType "64 word"
  | FloatImm DataType "64 word"
  | Cast DataType Expr
  | Load DataType Var Expr Expr
  | BinaryOp binop DataType Expr Expr

datatype Stmt =
    Evaluate Expr
  | Store Var Expr Expr Expr
  | Allocate Var DataType "Expr list" Expr Stmt "Expr option" string

text \<open>\<open>e.dtype()\<close>: the node's own type descriptor.\<close>

fun dtype :: "Expr \<Rightarrow> DataType" where
  "dtype (Variable v) = vdtype v"
| "dtype (IntImm t x) = t"
| "dtype (FloatImm t x) = t"
| "dtype (Cast t v) = t"
| "dtype (Load t bv i p) = t"
| "dtype (BinaryOp opr t a b) = t"

subsection \<open>The registry\<close>

text \<open>
  Modelled from the spec: the registry (\<open>codegen/datatype/registry.h\<close>) is a process-wide
  table queried read-only; here it is an explicit argument. A lookup that finds nothing
  returns a null pointer in the source and \<open>None\<close> here. \<open>GetOpLowerFunc opr\<close> stands for
  the thirteen functions \<open>Get##OP##LowerFunc\<close>.
\<close>

record Registry =
  GetTypeRegistered :: "type_code \<Rightarrow> bool"
  GetCastLowerFunc :: "string \<Rightarrow> type_code \<Rightarrow> type_code \<Rightarrow> (Expr \<Rightarrow> Expr) option"
  GetFloatImmLowerFunc :: "string \<Rightarrow> type_code \<Rightarrow> (Expr \<Rightarrow> Expr) option"
  GetOpLowerFunc :: "binop \<Rightarrow> string \<Rightarrow> type_code \<Rightarrow> (Expr \<Rightarrow> Expr) option"

subsection \<open>Diagnostics\<close>

text \<open>
  A failed \<open>CHECK\<close> ends the pass; the error carries the text the source streams into
  the check (the logging library's own prefix is left out).
\<close>

datatype error = Fatal string

text \<open>\<open>static_cast<unsigned>(type_code)\<close> streamed: the decimal digits of the code.\<close>

fun unsigned_str :: "nat \<Rightarrow> string" where
  "unsigned_str n =
     (if n < 10 then [''0123456789'' ! n]
      else unsigned_str (n div 10) @ [''0123456789'' ! (n mod 10)])"

declare unsigned_str.simps [simp del]

text \<open>\<open>#OP\<close>: the macro argument as a string.\<close>

fun op_name :: "binop \<Rightarrow> string" where
  "op_name Add = ''Add''"
| "op_name Sub = ''Sub''"
| "op_name Mul = ''Mul''"
| "op_name Div = ''Div''"
| "op_name Mod = ''Mod''"
| "op_name Min = ''Min''"
| "op_name Max = ''Max''"
| "op_name EQ = ''EQ''"
| "op_name NE = ''NE''"
| "op_name LT = ''LT''"
| "op_name LE = ''LE''"
| "op_name GT = ''GT''"
| "op_name GE = ''GE''"

definition cast_not_found :: "string \<Rightarrow> type_code \<Rightarrow> type_code \<Rightarrow> string" where
  "cast_not_found target type_code src_type_code =
     ''Cast lowering function for target '' @ target @ '' destination type '' @
     unsigned_str (unat type_code) @ '' source type '' @
     unsigned_str (unat src_type_code) @ '' not found''"

definition floatimm_not_found :: "string \<Rightarrow> type_code \<Rightarrow> string" where
  "floatimm_not_found target type_code =
     ''FloatImm lowering function for target '' @ target @ '' type '' @
     unsigned_str (unat type_code) @ '' not found''"

definition op_not_found :: "binop \<Rightarrow> string \<Rightarrow> type_code \<Rightarrow> string" where
  "op_not_found opr target type_code =
     op_name opr @ '' lowering function for target '' @ target @ '' type '' @
     unsigned_str (unat type_code) @ '' not found''"

text \<open>\<open>CHECK(lower) << msg; return (*lower)(expr);\<close>\<close>

definition check_and_lower :: "(Expr \<Rightarrow> Expr) option \<Rightarrow> string \<Rightarrow> Expr \<Rightarrow> error + Expr" where
  "check_and_lower lower msg expr =
     (case lower of None \<Rightarrow> Inl (Fatal msg) | Some f \<Rightarrow> Inr (f expr))"

subsection \<open>The mutator \<open>CustomDatatypesLowerer\<close>\<close>

text \<open>
  Each equation is one \<open>VisitExpr_\<close> of the source: the flag \<open>toBeLowered\<close> is computed from
  the node as it comes in, the inherited \<open>StmtExprMutator::VisitExpr_\<close> rewrites the
  children, and the flag then decides what is returned.

  Modelled from the spec: the inherited traversal is outside the source file. It rebuilds
  the node from its rewritten children and keeps the node's own type descriptor; a failure
  in a child ends the traversal. The children are visited in the order index, predicate
  (\<open>Load\<close>) and a, b (binary operations); \<open>buffer_var\<close> is not visited. Kinds without an
  override in the source (\<open>Variable\<close>, \<open>IntImm\<close>) are returned by the inherited traversal
  as they are.
\<close>

fun VisitExpr :: "Registry \<Rightarrow> string \<Rightarrow> Expr \<Rightarrow> error + Expr" where
  "VisitExpr R target (Variable v) = Inr (Variable v)"
| "VisitExpr R target (IntImm t x) = Inr (IntImm t x)"
| "VisitExpr R target (FloatImm t x) =
     (let type_code = code t;
          e = FloatImm t x
      in if GetTypeRegistered R type_code
         then check_and_lower (GetFloatImmLowerFunc R target type_code)
                (floatimm_not_found target type_code) e
         else Inr e)"
| "VisitExpr R target (Cast t v) =
     (let type_code = code t;
          src_type_code = code (dtype v);
          toBeLowered = (GetTypeRegistered R type_code \<or> GetTypeRegistered R src_type_code)
      in case VisitExpr R target v of
           Inl err \<Rightarrow> Inl err
         | Inr v' \<Rightarrow>
             (let expr = Cast t v'
              in if toBeLowered
                 then check_and_lower (GetCastLowerFunc R target type_code src_type_code)
                        (cast_not_found target type_code src_type_code) expr
                 else Inr expr))"
| "VisitExpr R target (Load t bv i p) =
     (let toBeLowered = GetTypeRegistered R (code t)
      in case VisitExpr R target i of
           Inl err \<Rightarrow> Inl err
         | Inr i' \<Rightarrow>
             (case VisitExpr R target p of
                Inl err \<Rightarrow> Inl err
              | Inr p' \<Rightarrow>
                  (let expr = Load t bv i' p'
                   in if toBeLowered
                      then Inr (Load (UInt (bits t) 1) bv i' p')
                      else Inr expr)))"
| "VisitExpr R target (BinaryOp opr t a b) =
     (let type_code = code t;
          toBeLowered = GetTypeRegistered R type_code
      in case VisitExpr R target a of
           Inl err \<Rightarrow> Inl err
         | Inr a' \<Rightarrow>
             (case VisitExpr R target b of
                Inl err \<Rightarrow> Inl err
              | Inr b' \<Rightarrow>
                  (let expr = BinaryOp opr t a' b'
                   in if toBeLowered
                      then check_and_lower (GetOpLowerFunc R opr target type_code)
                             (op_not_found opr target type_code) expr
                      else Inr expr)))"

text \<open>
  Modelled from the spec: the inherited traversal of an array of expressions (the extents
  of an \<open>Allocate\<close>), left to right, ending at the first failure.
\<close>

fun VisitExprs :: "Registry \<Rightarrow> string \<Rightarrow> Expr list \<Rightarrow> error + Expr list" where
  "VisitExprs R target [] = Inr []"
| "VisitExprs R target (e # es) =
     (case VisitExpr R target e of
        Inl err \<Rightarrow> Inl err
      | Inr e' \<Rightarrow>
          (case VisitExprs R target es of
             Inl err \<Rightarrow> Inl err
           | Inr es' \<Rightarrow> Inr (e' # es')))"

text \<open>
  Modelled from the spec: the inherited traversal of an expression that may be undefined
  (\<open>new_expr\<close> of an \<open>Allocate\<close>).
\<close>

fun VisitOptExpr :: "Registry \<Rightarrow> string \<Rightarrow> Expr option \<Rightarrow> error + Expr option" where
  "VisitOptExpr R target None = Inr None"
| "VisitOptExpr R target (Some e) =
     (case VisitExpr R target e of Inl err \<Rightarrow> Inl err | Inr e' \<Rightarrow> Inr (Some e'))"

text \<open>
  The equation for \<open>Allocate\<close> is \<open>VisitStmt_(const Allocate*)\<close>, the one statement
  override of the source: the flag is computed from the element type as it comes in, the
  inherited traversal rewrites the children, and a flagged node is rebuilt by
  \<open>Allocate::make\<close> with the new element type and the other fields of the rewritten node.

  Modelled from the spec: the inherited traversal visits extents, body, condition and
  \<open>new_expr\<close> of an \<open>Allocate\<close>, value, index and predicate of a \<open>Store\<close>, and the value
  of an \<open>Evaluate\<close>, and rebuilds the statement from the results.
\<close>

fun VisitStmt :: "Registry \<Rightarrow> string \<Rightarrow> Stmt \<Rightarrow> error + Stmt" where
  "VisitStmt R target (Evaluate v) =
     (case VisitExpr R target v of Inl err \<Rightarrow> Inl err | Inr v' \<Rightarrow> Inr (Evaluate v'))"
| "VisitStmt R target (Store bv v i p) =
     (case VisitExpr R target v of
        Inl err \<Rightarrow> Inl err
      | Inr v' \<Rightarrow>
          (case VisitExpr R target i of
             Inl err \<Rightarrow> Inl err
           | Inr i' \<Rightarrow>
               (case VisitExpr R target p of
                  Inl err \<Rightarrow> Inl err
                | Inr p' \<Rightarrow> Inr (Store bv v' i' p'))))"
| "VisitStmt R target (Allocate bv t extents condition body new_expr free_function) =
     (let toBeLowered = GetTypeRegistered R (code t)
      in case VisitExprs R target extents of
           Inl err \<Rightarrow> Inl err
         | Inr extents' \<Rightarrow>
             (case VisitStmt R target body of
                Inl err \<Rightarrow> Inl err
              | Inr body' \<Rightarrow>
                  (case VisitExpr R target condition of
                     Inl err \<Rightarrow> Inl err
                   | Inr condition' \<Rightarrow>
                       (case VisitOptExpr R target new_expr of
                          Inl err \<Rightarrow> Inl err
                        | Inr new_expr' \<Rightarrow>
                            (let stmt = Allocate bv t extents' condition' body' new_expr'
                                          free_function
                             in if toBeLowered
                                then (let new_allocate_type = UInt (bits t) (lanes t)
                                      in Inr (Allocate bv new_allocate_type extents' condition'
                                                body' new_expr' free_function))
                                else Inr stmt)))))"

subsection \<open>The entry point \<open>LowerCustomDatatypes\<close>\<close>

text \<open>
  Modelled from the spec: \<open>LoweredFuncNode\<close> is declared outside the source file, which
  names only its field \<open>body\<close>; the other fields are the extension part of the record.
  Function records live in a store and are passed by reference: \<open>objs\<close> maps a reference
  to the record it points to, and references below \<open>next_free\<close> are in use.
  \<open>make_object<LoweredFuncNode>(node)\<close> puts a copy of \<open>node\<close> at a fresh reference.
\<close>

record LoweredFuncNode =
  body :: Stmt

type_synonym ref = nat

record 'a store =
  objs :: "ref \<Rightarrow> 'a LoweredFuncNode_scheme"
  next_free :: ref

definition make_object ::
  "'a store \<Rightarrow> 'a LoweredFuncNode_scheme \<Rightarrow> 'a store \<times> ref" where
  "make_object h node =
     (h\<lparr>objs := (objs h)(next_free h := node), next_free := Suc (next_free h)\<rparr>, next_free h)"

text \<open>
  \<open>n = make_object(*f); n->body = CustomDatatypesLowerer(target)(n->body); return n\<close>.
  When the mutator fails, the exception leaves the caller's store as it was.
\<close>

definition LowerCustomDatatypes ::
  "Registry \<Rightarrow> 'a store \<Rightarrow> ref \<Rightarrow> string \<Rightarrow> error + ('a store \<times> ref)" where
  "LowerCustomDatatypes R h f target =
     (case make_object h (objs h f) of
        (h1, n) \<Rightarrow>
          (case VisitStmt R target (body (objs h1 n)) of
             Inl err \<Rightarrow> Inl err
           | Inr b \<Rightarrow> Inr (h1\<lparr>objs := (objs h1)(n := (objs h1 n)\<lparr>body := b\<rparr>)\<rparr>, n)))"

section \<open>Properties\<close>

subsection \<open>Vocabulary of the properties\<close>

text \<open>
  A tree carries no custom type code when no node's own descriptor, and no buffer
  variable's descriptor, has a registered code.
\<close>

fun no_custom :: "Registry \<Rightarrow> Expr \<Rightarrow> bool" where
  "no_custom R (Variable v) = (\<not> GetTypeRegistered R (code (vdtype v)))"
| "no_custom R (IntImm t x) = (\<not> GetTypeRegistered R (code t))"
| "no_custom R (FloatImm t x) = (\<not> GetTypeRegistered R (code t))"
| "no_custom R (Cast t v) = (\<not> GetTypeRegistered R (code t) \<and> no_custom R v)"
| "no_custom R (Load t bv i p) =
     (\<not> GetTypeRegistered R (code t) \<and> \<not> GetTypeRegistered R (code (vdtype bv)) \<and>
      no_custom R i \<and> no_custom R p)"
| "no_custom R (BinaryOp opr t a b) =
     (\<not> GetTypeRegistered R (code t) \<and> no_custom R a \<and> no_custom R b)"

fun no_custom_opt :: "Registry \<Rightarrow> Expr option \<Rightarrow> bool" where
  "no_custom_opt R None = True"
| "no_custom_opt R (Some e) = no_custom R e"

fun no_custom_stmt :: "Registry \<Rightarrow> Stmt \<Rightarrow> bool" where
  "no_custom_stmt R (Evaluate v) = no_custom R v"
| "no_custom_stmt R (Store bv v i p) =
     (\<not> GetTypeRegistered R (code (vdtype bv)) \<and> no_custom R v \<and> no_custom R i \<and>
      no_custom R p)"
| "no_custom_stmt R (Allocate bv t extents condition b new_expr free_function) =
     (\<not> GetTypeRegistered R (code (vdtype bv)) \<and> \<not> GetTypeRegistered R (code t) \<and>
      list_all (no_custom R) extents \<and> no_custom R condition \<and> no_custom_stmt R b \<and>
      no_custom_opt R new_expr)"

text \<open>
  Custom type codes are confined to the kinds the source overrides when every variable
  (also a buffer variable) and every integer immediate has an unregistered code; the
  descriptors of the overridden kinds are unconstrained.
\<close>

fun confined :: "Registry \<Rightarrow> Expr \<Rightarrow> bool" where
  "confined R (Variable v) = (\<not> GetTypeRegistered R (code (vdtype v)))"
| "confined R (IntImm t x) = (\<not> GetTypeRegistered R (code t))"
| "confined R (FloatImm t x) = True"
| "confined R (Cast t v) = confined R v"
| "confined R (Load t bv i p) =
     (\<not> GetTypeRegistered R (code (vdtype bv)) \<and> confined R i \<and> confined R p)"
| "confined R (BinaryOp opr t a b) = (confined R a \<and> confined R b)"

fun confined_opt :: "Registry \<Rightarrow> Expr option \<Rightarrow> bool" where
  "confined_opt R None = True"
| "confined_opt R (Some e) = confined R e"

fun confined_stmt :: "Registry \<Rightarrow> Stmt \<Rightarrow> bool" where
  "confined_stmt R (Evaluate v) = confined R v"
| "confined_stmt R (Store bv v i p) =
     (\<not> GetTypeRegistered R (code (vdtype bv)) \<and> confined R v \<and> confined R i \<and>
      confined R p)"
| "confined_stmt R (Allocate bv t extents condition b new_expr free_function) =
     (\<not> GetTypeRegistered R (code (vdtype bv)) \<and> list_all (confined R) extents \<and>
      confined R condition \<and> confined_stmt R b \<and> confined_opt R new_expr)"

text \<open>The element type of an \<open>Allocate\<close>.\<close>

fun element_type :: "Stmt \<Rightarrow> DataType option" where
  "element_type (Allocate bv t extents condition b new_expr free_function) = Some t"
| "element_type s = None"

text \<open>
  The diagnostics of the nodes that need a lowering function the registry does not have,
  in the order in which the traversal reaches them (children before their parent).
\<close>

fun missing :: "Registry \<Rightarrow> string \<Rightarrow> Expr \<Rightarrow> string list" where
  "missing R target (Variable v) = []"
| "missing R target (IntImm t x) = []"
| "missing R target (FloatImm t x) =
     (if GetTypeRegistered R (code t) \<and> GetFloatImmLowerFunc R target (code t) = None
      then [floatimm_not_found target (code t)] else [])"
| "missing R target (Cast t v) =
     missing R target v @
     (if (GetTypeRegistered R (code t) \<or> GetTypeRegistered R (code (dtype v))) \<and>
         GetCastLowerFunc R target (code t) (code (dtype v)) = None
      then [cast_not_found target (code t) (code (dtype v))] else [])"
| "missing R target (Load t bv i p) = missing R target i @ missing R target p"
| "missing R target (BinaryOp opr t a b) =
     missing R target a @ missing R target b @
     (if GetTypeRegistered R (code t) \<and> GetOpLowerFunc R opr target (code t) = None
      then [op_not_found opr target (code t)] else [])"

fun missing_list :: "Registry \<Rightarrow> string \<Rightarrow> Expr list \<Rightarrow> string list" where
  "missing_list R target [] = []"
| "missing_list R target (e # es) = missing R target e @ missing_list R target es"

fun missing_opt :: "Registry \<Rightarrow> string \<Rightarrow> Expr option \<Rightarrow> string list" where
  "missing_opt R target None = []"
| "missing_opt R target (Some e) = missing R target e"

fun missing_stmt :: "Registry \<Rightarrow> string \<Rightarrow> Stmt \<Rightarrow> string list" where
  "missing_stmt R target (Evaluate v) = missing R target v"
| "missing_stmt R target (Store bv v i p) =
     missing R target v @ missing R target i @ missing R target p"
| "missing_stmt R target (Allocate bv t extents condition b new_expr free_function) =
     missing_list R target extents @ missing_stmt R target b @
     missing R target condition @ missing_opt R target new_expr"

text \<open>
  The contract of the registered lowering functions: given the node kind they are
  registered for, with children that carry no custom code, they return a tree that carries
  none.
\<close>

definition lower_funcs_native :: "Registry \<Rightarrow> string \<Rightarrow> bool" where
  "lower_funcs_native R target \<longleftrightarrow>
     (\<forall>t sc f v. GetCastLowerFunc R target (code t) sc = Some f \<longrightarrow> no_custom R v \<longrightarrow>
        no_custom R (f (Cast t v))) \<and>
     (\<forall>t f x. GetFloatImmLowerFunc R target (code t) = Some f \<longrightarrow>
        no_custom R (f (FloatImm t x))) \<and>
     (\<forall>opr t f a b. GetOpLowerFunc R opr target (code t) = Some f \<longrightarrow> no_custom R a \<longrightarrow>
        no_custom R b \<longrightarrow> no_custom R (f (BinaryOp opr t a b)))"

subsection \<open>A registry and descriptors for the examples\<close>

text \<open>
  Code 200 is the one registered custom code. The target \<open>llvm\<close> has lowering functions
  for casts, floating-point immediates and \<open>Add\<close>, and none for the other operations.
  The lowering functions replace the custom descriptor of the node they are given by the
  unsigned-integer descriptor of the same shape.
\<close>

definition f32 :: DataType where
  "f32 = \<lparr>code = 2, bits = 32, lanes = 1\<rparr>"

definition i32 :: DataType where
  "i32 = \<lparr>code = 0, bits = 32, lanes = 1\<rparr>"

definition bool1 :: DataType where
  "bool1 = \<lparr>code = 1, bits = 1, lanes = 1\<rparr>"

definition handle :: DataType where
  "handle = \<lparr>code = 3, bits = 64, lanes = 1\<rparr>"

definition custom32 :: DataType where
  "custom32 = \<lparr>code = 200, bits = 32, lanes = 1\<rparr>"

definition custom16x4 :: DataType where
  "custom16x4 = \<lparr>code = 200, bits = 16, lanes = 4\<rparr>"

definition buf :: Var where
  "buf = \<lparr>name_hint = ''A'', vdtype = handle\<rparr>"

definition xc :: Var where
  "xc = \<lparr>name_hint = ''x'', vdtype = custom32\<rparr>"

text \<open>The 64 bits of the values 1.0 and 2.0.\<close>

definition float_1 :: "64 word" where
  "float_1 = 0x3FF0000000000000"

definition float_2 :: "64 word" where
  "float_2 = 0x4000000000000000"

definition native_of :: "DataType \<Rightarrow> DataType" where
  "native_of t = (if code t = 200 then UInt (bits t) (lanes t) else t)"

fun cast_lower :: "Expr \<Rightarrow> Expr" where
  "cast_lower (Cast t v) = Cast (native_of t) v"
| "cast_lower e = e"

fun floatimm_lower :: "Expr \<Rightarrow> Expr" where
  "floatimm_lower (FloatImm t x) = IntImm (native_of t) x"
| "floatimm_lower e = e"

fun add_lower :: "Expr \<Rightarrow> Expr" where
  "add_lower (BinaryOp opr t a b) = BinaryOp opr (native_of t) a b"
| "add_lower e = e"

definition example_registry :: Registry where
  "example_registry =
     \<lparr>GetTypeRegistered = (\<lambda>c. c = 200),
      GetCastLowerFunc =
        (\<lambda>target d s. if target = ''llvm'' \<and> (d = 200 \<or> s = 200) then Some cast_lower else None),
      GetFloatImmLowerFunc =
        (\<lambda>target c. if target = ''llvm'' \<and> c = 200 then Some floatimm_lower else None),
      GetOpLowerFunc =
        (\<lambda>opr target c. if opr = Add \<and> target = ''llvm'' \<and> c = 200 then Some add_lower
                         else None)\<rparr>"

section \<open>Proofs\<close>

subsection \<open>A tree without custom codes is returned as it is\<close>

lemma no_custom_dtype: "no_custom R e \<Longrightarrow> \<not> GetTypeRegistered R (code (dtype e))"
  by (cases e) simp_all

lemma VisitExpr_native: "no_custom R e \<Longrightarrow> VisitExpr R target e = Inr e"
  by (induction e) (simp_all add: Let_def no_custom_dtype)

lemma VisitExprs_native: "list_all (no_custom R) es \<Longrightarrow> VisitExprs R target es = Inr es"
  by (induction es) (simp_all add: VisitExpr_native)

lemma VisitOptExpr_native: "no_custom_opt R oe \<Longrightarrow> VisitOptExpr R target oe = Inr oe"
  by (cases oe) (simp_all add: VisitExpr_native)

text \<open>
  C8: on a tree that carries no registered type code anywhere, the pass fires no trigger
  and returns the tree itself.
\<close>

theorem native_input_identity:
  "no_custom_stmt R s \<Longrightarrow> VisitStmt R target s = Inr s"
  by (induction s)
     (simp_all add: Let_def VisitExpr_native VisitExprs_native VisitOptExpr_native)

theorem native_input_identity_witness:
  "no_custom_stmt example_registry
     (Store buf
        (BinaryOp Add f32 (FloatImm f32 float_1) (Load f32 buf (IntImm i32 0) (IntImm bool1 1)))
        (IntImm i32 0) (IntImm bool1 1)) \<and>
   VisitStmt example_registry ''llvm''
     (Store buf
        (BinaryOp Add f32 (FloatImm f32 float_1) (Load f32 buf (IntImm i32 0) (IntImm bool1 1)))
        (IntImm i32 0) (IntImm bool1 1)) =
   Inr (Store buf
        (BinaryOp Add f32 (FloatImm f32 float_1) (Load f32 buf (IntImm i32 0) (IntImm bool1 1)))
        (IntImm i32 0) (IntImm bool1 1))"
proof -
  have h: "no_custom_stmt example_registry
     (Store buf
        (BinaryOp Add f32 (FloatImm f32 float_1) (Load f32 buf (IntImm i32 0) (IntImm bool1 1)))
        (IntImm i32 0) (IntImm bool1 1))"
    by (simp add: example_registry_def buf_def handle_def f32_def i32_def bool1_def)
  show ?thesis using h native_input_identity [OF h, of "''llvm''"] by simp
qed

subsection \<open>Casts\<close>

text \<open>
  C3: a \<open>Cast\<close> is lowered exactly when the code of its destination type or the code of
  its operand's type, read before the operand is rewritten, is registered; the replacement
  then comes from the cast lookup keyed by both codes, applied to the cast over the
  rewritten operand, and no other lookup is consulted for the node.
\<close>

theorem cast_dual_trigger:
  "VisitExpr R target v = Inr v' \<Longrightarrow>
   VisitExpr R target (Cast t v) =
     (if GetTypeRegistered R (code t) \<or> GetTypeRegistered R (code (dtype v))
      then (case GetCastLowerFunc R target (code t) (code (dtype v)) of
              None \<Rightarrow> Inl (Fatal (cast_not_found target (code t) (code (dtype v))))
            | Some lower \<Rightarrow> Inr (lower (Cast t v')))
      else Inr (Cast t v'))"
  by (simp add: Let_def check_and_lower_def)

theorem cast_dual_trigger_witness:
  "VisitExpr example_registry ''llvm'' (FloatImm f32 float_1) = Inr (FloatImm f32 float_1) \<and>
   VisitExpr example_registry ''llvm'' (Cast custom32 (FloatImm f32 float_1)) =
     Inr (Cast (UInt 32 1) (FloatImm f32 float_1)) \<and>
   VisitExpr example_registry ''llvm'' (Load custom32 buf (IntImm i32 0) (IntImm bool1 1)) =
     Inr (Load (UInt 32 1) buf (IntImm i32 0) (IntImm bool1 1)) \<and>
   VisitExpr example_registry ''llvm''
     (Cast f32 (Load custom32 buf (IntImm i32 0) (IntImm bool1 1))) =
     Inr (Cast f32 (Load (UInt 32 1) buf (IntImm i32 0) (IntImm bool1 1))) \<and>
   GetCastLowerFunc example_registry ''llvm'' (code f32) (code custom32) = Some cast_lower \<and>
   GetOpLowerFunc example_registry LT ''llvm'' (code f32) = None"
proof -
  have a: "VisitExpr example_registry ''llvm'' (FloatImm f32 float_1) =
           Inr (FloatImm f32 float_1)"
    by (simp add: example_registry_def f32_def)
  have b: "VisitExpr example_registry ''llvm''
             (Load custom32 buf (IntImm i32 0) (IntImm bool1 1)) =
           Inr (Load (UInt 32 1) buf (IntImm i32 0) (IntImm bool1 1))"
    by (simp add: example_registry_def custom32_def)
  show ?thesis
    using a b cast_dual_trigger [OF a, of custom32] cast_dual_trigger [OF b, of f32]
    by (simp add: example_registry_def f32_def custom32_def native_of_def)
qed

subsection \<open>Binary operations and comparisons\<close>

text \<open>
  C6: for each of the thirteen operations generated by \<open>DEFINE_MUTATE__\<close>, the node is
  lowered if and only if the code of its own result type is registered; the operands'
  codes play no part in the decision.
\<close>

theorem binary_op_trigger:
  "VisitExpr R target a = Inr a' \<Longrightarrow> VisitExpr R target b = Inr b' \<Longrightarrow>
   VisitExpr R target (BinaryOp opr t a b) =
     (if GetTypeRegistered R (code t)
      then (case GetOpLowerFunc R opr target (code t) of
              None \<Rightarrow> Inl (Fatal (op_not_found opr target (code t)))
            | Some lower \<Rightarrow> Inr (lower (BinaryOp opr t a' b')))
      else Inr (BinaryOp opr t a' b'))"
  by (simp add: Let_def check_and_lower_def)

theorem binary_op_trigger_witness:
  "VisitExpr example_registry ''llvm'' (Load custom32 buf (IntImm i32 0) (IntImm bool1 1)) =
     Inr (Load (UInt 32 1) buf (IntImm i32 0) (IntImm bool1 1)) \<and>
   VisitExpr example_registry ''llvm''
     (BinaryOp EQ bool1 (Load custom32 buf (IntImm i32 0) (IntImm bool1 1))
                        (Load custom32 buf (IntImm i32 0) (IntImm bool1 1))) =
     Inr (BinaryOp EQ bool1 (Load (UInt 32 1) buf (IntImm i32 0) (IntImm bool1 1))
                            (Load (UInt 32 1) buf (IntImm i32 0) (IntImm bool1 1))) \<and>
   VisitExpr example_registry ''llvm''
     (BinaryOp Add custom32 (Load custom32 buf (IntImm i32 0) (IntImm bool1 1))
                            (Load custom32 buf (IntImm i32 0) (IntImm bool1 1))) =
     Inr (BinaryOp Add (UInt 32 1) (Load (UInt 32 1) buf (IntImm i32 0) (IntImm bool1 1))
                                   (Load (UInt 32 1) buf (IntImm i32 0) (IntImm bool1 1)))"
proof -
  have a: "VisitExpr example_registry ''llvm''
             (Load custom32 buf (IntImm i32 0) (IntImm bool1 1)) =
           Inr (Load (UInt 32 1) buf (IntImm i32 0) (IntImm bool1 1))"
    by (simp add: example_registry_def custom32_def)
  show ?thesis
    using a binary_op_trigger [OF a a, of EQ bool1] binary_op_trigger [OF a a, of Add custom32]
    by (simp add: example_registry_def bool1_def custom32_def native_of_def)
qed

text \<open>The macro is instantiated thirteen times.\<close>

lemma binop_kinds:
  "(UNIV :: binop set) = set [Add, Sub, Mul, Div, Mod, Min, Max, EQ, NE, LT, LE, GT, GE] \<and>
   distinct [Add, Sub, Mul, Div, Mod, Min, Max, EQ, NE, LT, LE, GT, GE] \<and>
   length [Add, Sub, Mul, Div, Mod, Min, Max, EQ, NE, LT, LE, GT, GE] = 13"
proof -
  have "x \<in> set [Add, Sub, Mul, Div, Mod, Min, Max, EQ, NE, LT, LE, GT, GE]" for x :: binop
    by (cases x) simp_all
  then have "(UNIV :: binop set) = set [Add, Sub, Mul, Div, Mod, Min, Max, EQ, NE, LT, LE, GT, GE]"
    by blast
  then show ?thesis by simp
qed

subsection \<open>Storage: \<open>Allocate\<close> and \<open>Load\<close>\<close>

text \<open>
  C4: an \<open>Allocate\<close> of a registered element type becomes an \<open>Allocate\<close> of the unsigned
  type of the same bit width and the same lane count; a \<open>Load\<close> of a registered type
  becomes a \<open>Load\<close> of the unsigned type of the same bit width with lane count 1, whatever
  the lane count was. Once the children are rewritten neither node can fail: no lowering
  function is looked up for it.
\<close>

theorem allocate_load_lanes:
  "GetTypeRegistered R (code t) \<Longrightarrow>
   (VisitExprs R target extents = Inr extents' \<longrightarrow> VisitStmt R target b = Inr b' \<longrightarrow>
    VisitExpr R target condition = Inr condition' \<longrightarrow>
    VisitOptExpr R target new_expr = Inr new_expr' \<longrightarrow>
    (\<exists>s'. VisitStmt R target (Allocate bv t extents condition b new_expr free_function) = Inr s' \<and>
          element_type s' = Some \<lparr>code = kDLUInt, bits = bits t, lanes = lanes t\<rparr>)) \<and>
   (VisitExpr R target i = Inr i' \<longrightarrow> VisitExpr R target p = Inr p' \<longrightarrow>
    (\<exists>bv' j q. VisitExpr R target (Load t bv i p) =
                 Inr (Load \<lparr>code = kDLUInt, bits = bits t, lanes = 1\<rparr> bv' j q)))"
  by (simp add: Let_def UInt_def)

theorem allocate_load_lanes_witness:
  "GetTypeRegistered example_registry (code custom16x4) \<and>
   bits custom16x4 = 16 \<and> lanes custom16x4 = 4 \<and>
   (\<exists>s'. VisitStmt example_registry ''llvm''
           (Allocate buf custom16x4 [IntImm i32 8] (IntImm bool1 1)
              (Evaluate (IntImm i32 0)) None ''nop'') = Inr s' \<and>
         element_type s' = Some \<lparr>code = kDLUInt, bits = 16, lanes = 4\<rparr>) \<and>
   (\<exists>bv' j q. VisitExpr example_registry ''llvm''
                (Load custom16x4 buf (IntImm i32 0) (IntImm bool1 1)) =
              Inr (Load \<lparr>code = kDLUInt, bits = 16, lanes = 1\<rparr> bv' j q))"
proof -
  have r: "GetTypeRegistered example_registry (code custom16x4)"
    by (simp add: example_registry_def custom16x4_def)
  have i: "VisitExpr example_registry ''llvm'' (IntImm i32 0) = Inr (IntImm i32 0)"
    by simp
  have p: "VisitExpr example_registry ''llvm'' (IntImm bool1 1) = Inr (IntImm bool1 1)"
    by simp
  have e: "VisitExprs example_registry ''llvm'' [IntImm i32 8] = Inr [IntImm i32 8]"
    by simp
  have n: "VisitOptExpr example_registry ''llvm'' None = Inr None"
    by simp
  have b: "VisitStmt example_registry ''llvm'' (Evaluate (IntImm i32 0)) =
           Inr (Evaluate (IntImm i32 0))"
    by simp
  have shape: "bits custom16x4 = 16 \<and> lanes custom16x4 = 4"
    by (simp add: custom16x4_def)
  show ?thesis
    using r shape
      allocate_load_lanes [OF r, THEN conjunct1, rule_format, OF e b p n,
        of buf "''nop''"]
      allocate_load_lanes [OF r, THEN conjunct2, rule_format, OF i p, of buf]
    by simp
qed

text \<open>
  C5: when an \<open>Allocate\<close> of a registered element type is rewritten, the new node has the
  buffer variable and the free function of the old one, and its extents, condition, body
  and \<open>new_expr\<close> are the results of rewriting the old ones; only the element type differs.
\<close>

theorem allocate_frame:
  "GetTypeRegistered R (code t) \<Longrightarrow>
   VisitStmt R target (Allocate bv t extents condition b new_expr free_function) = Inr s' \<Longrightarrow>
   \<exists>extents' condition' b' new_expr'.
     VisitExprs R target extents = Inr extents' \<and>
     VisitStmt R target b = Inr b' \<and>
     VisitExpr R target condition = Inr condition' \<and>
     VisitOptExpr R target new_expr = Inr new_expr' \<and>
     s' = Allocate bv (UInt (bits t) (lanes t)) extents' condition' b' new_expr' free_function"
  by (auto simp: Let_def split: sum.splits)

theorem allocate_frame_witness:
  "GetTypeRegistered example_registry (code custom16x4) \<and>
   VisitStmt example_registry ''llvm''
     (Allocate buf custom16x4 [Cast i32 (FloatImm custom32 float_2)] (IntImm bool1 1)
        (Store buf (FloatImm custom16x4 float_1) (IntImm i32 0) (IntImm bool1 1))
        (Some (Load custom16x4 buf (IntImm i32 0) (IntImm bool1 1))) ''nop'') =
   Inr (Allocate buf (UInt 16 4) [Cast i32 (IntImm (UInt 32 1) float_2)] (IntImm bool1 1)
        (Store buf (IntImm (UInt 16 4) float_1) (IntImm i32 0) (IntImm bool1 1))
        (Some (Load (UInt 16 1) buf (IntImm i32 0) (IntImm bool1 1))) ''nop'') \<and>
   VisitExprs example_registry ''llvm'' [Cast i32 (FloatImm custom32 float_2)] =
     Inr [Cast i32 (IntImm (UInt 32 1) float_2)] \<and>
   VisitStmt example_registry ''llvm''
     (Store buf (FloatImm custom16x4 float_1) (IntImm i32 0) (IntImm bool1 1)) =
     Inr (Store buf (IntImm (UInt 16 4) float_1) (IntImm i32 0) (IntImm bool1 1)) \<and>
   VisitOptExpr example_registry ''llvm''
     (Some (Load custom16x4 buf (IntImm i32 0) (IntImm bool1 1))) =
     Inr (Some (Load (UInt 16 1) buf (IntImm i32 0) (IntImm bool1 1)))"
proof -
  have r: "GetTypeRegistered example_registry (code custom16x4)"
    by (simp add: example_registry_def custom16x4_def)
  have v: "VisitStmt example_registry ''llvm''
     (Allocate buf custom16x4 [Cast i32 (FloatImm custom32 float_2)] (IntImm bool1 1)
        (Store buf (FloatImm custom16x4 float_1) (IntImm i32 0) (IntImm bool1 1))
        (Some (Load custom16x4 buf (IntImm i32 0) (IntImm bool1 1))) ''nop'') =
   Inr (Allocate buf (UInt 16 4) [Cast i32 (IntImm (UInt 32 1) float_2)] (IntImm bool1 1)
        (Store buf (IntImm (UInt 16 4) float_1) (IntImm i32 0) (IntImm bool1 1))
        (Some (Load (UInt 16 1) buf (IntImm i32 0) (IntImm bool1 1))) ''nop'')"
    by (simp add: example_registry_def custom16x4_def custom32_def i32_def native_of_def
          check_and_lower_def)
  show ?thesis
    using r v allocate_frame [OF r v] by simp
qed

text \<open>
  C10: when a \<open>Load\<close> of a registered type is rewritten, the new node has the buffer
  variable of the old one, and its index and predicate are the results of rewriting the
  old ones; only the type of the loaded value differs.
\<close>

theorem load_frame:
  "GetTypeRegistered R (code t) \<Longrightarrow>
   VisitExpr R target (Load t bv i p) = Inr e' \<Longrightarrow>
   \<exists>i' p'. VisitExpr R target i = Inr i' \<and> VisitExpr R target p = Inr p' \<and>
           e' = Load (UInt (bits t) 1) bv i' p'"
  by (auto simp: Let_def split: sum.splits)

theorem load_frame_witness:
  "GetTypeRegistered example_registry (code custom32) \<and>
   VisitExpr example_registry ''llvm''
     (Load custom32 buf (Cast i32 (FloatImm custom32 float_2))
        (BinaryOp EQ bool1 (FloatImm custom32 float_1) (FloatImm custom32 float_1))) =
   Inr (Load (UInt 32 1) buf (Cast i32 (IntImm (UInt 32 1) float_2))
        (BinaryOp EQ bool1 (IntImm (UInt 32 1) float_1) (IntImm (UInt 32 1) float_1))) \<and>
   VisitExpr example_registry ''llvm'' (Cast i32 (FloatImm custom32 float_2)) =
     Inr (Cast i32 (IntImm (UInt 32 1) float_2)) \<and>
   VisitExpr example_registry ''llvm''
     (BinaryOp EQ bool1 (FloatImm custom32 float_1) (FloatImm custom32 float_1)) =
     Inr (BinaryOp EQ bool1 (IntImm (UInt 32 1) float_1) (IntImm (UInt 32 1) float_1))"
proof -
  have r: "GetTypeRegistered example_registry (code custom32)"
    by (simp add: example_registry_def custom32_def)
  have v: "VisitExpr example_registry ''llvm''
     (Load custom32 buf (Cast i32 (FloatImm custom32 float_2))
        (BinaryOp EQ bool1 (FloatImm custom32 float_1) (FloatImm custom32 float_1))) =
   Inr (Load (UInt 32 1) buf (Cast i32 (IntImm (UInt 32 1) float_2))
        (BinaryOp EQ bool1 (IntImm (UInt 32 1) float_1) (IntImm (UInt 32 1) float_1)))"
    by (simp add: example_registry_def custom32_def i32_def bool1_def native_of_def
          check_and_lower_def)
  show ?thesis
    using r v load_frame [OF r v] by simp
qed

subsection \<open>The entry point\<close>

text \<open>
  C9: \<open>LowerCustomDatatypes\<close> returns a reference to a new function record. The record the
  caller passed, and every other record in use, is left as it was; the new record has the
  rewritten body and agrees with the caller's record in every other field.
\<close>

theorem lowered_func_frame:
  "LowerCustomDatatypes R h f target = Inr (h', n) \<Longrightarrow> f < next_free h \<Longrightarrow>
   n \<noteq> f \<and>
   (\<forall>r. r < next_free h \<longrightarrow> objs h' r = objs h r) \<and>
   VisitStmt R target (body (objs h f)) = Inr (body (objs h' n)) \<and>
   LoweredFuncNode.more (objs h' n) = LoweredFuncNode.more (objs h f)"
  by (auto simp: LowerCustomDatatypes_def make_object_def split: sum.splits)

theorem lowered_func_frame_witness:
  "LowerCustomDatatypes example_registry
     \<lparr>objs = (\<lambda>r. \<lparr>body = Evaluate (FloatImm custom32 float_1), \<dots> = ''myadd''\<rparr>),
      next_free = 1\<rparr> 0 ''llvm'' =
   Inr (\<lparr>objs = (\<lambda>r. \<lparr>body = Evaluate (FloatImm custom32 float_1), \<dots> = ''myadd''\<rparr>)
                (1 := \<lparr>body = Evaluate (IntImm (UInt 32 1) float_1), \<dots> = ''myadd''\<rparr>),
         next_free = 2\<rparr>, 1) \<and>
   (1::nat) \<noteq> 0 \<and>
   body (((\<lambda>r. \<lparr>body = Evaluate (FloatImm custom32 float_1), \<dots> = ''myadd''\<rparr>)
           (1 := \<lparr>body = Evaluate (IntImm (UInt 32 1) float_1), \<dots> = ''myadd''\<rparr>)) (0::nat)) =
     Evaluate (FloatImm custom32 float_1)"
proof -
  have v: "LowerCustomDatatypes example_registry
     \<lparr>objs = (\<lambda>r. \<lparr>body = Evaluate (FloatImm custom32 float_1), \<dots> = ''myadd''\<rparr>),
      next_free = 1\<rparr> 0 ''llvm'' =
   Inr (\<lparr>objs = (\<lambda>r. \<lparr>body = Evaluate (FloatImm custom32 float_1), \<dots> = ''myadd''\<rparr>)
                (1 := \<lparr>body = Evaluate (IntImm (UInt 32 1) float_1), \<dots> = ''myadd''\<rparr>),
         next_free = 2\<rparr>, 1)"
    by (simp add: LowerCustomDatatypes_def make_object_def example_registry_def custom32_def
          native_of_def check_and_lower_def)
  have l: "(0::nat) < next_free
     \<lparr>objs = (\<lambda>r. \<lparr>body = Evaluate (FloatImm custom32 float_1), \<dots> = ''myadd''\<rparr>),
      next_free = 1\<rparr>"
    by simp
  show ?thesis
    using v lowered_func_frame [OF v l] by simp
qed

subsection \<open>Missing lowering functions\<close>

text \<open>Type codes are rendered in decimal.\<close>

lemma unsigned_str_examples:
  "unsigned_str 0 = ''0'' \<and> unsigned_str 7 = ''7'' \<and> unsigned_str 42 = ''42'' \<and>
   unsigned_str 129 = ''129'' \<and> unsigned_str (unat (255 :: type_code)) = ''255''"
  by (simp add: unsigned_str.simps)

lemma VisitExpr_missing:
  "case missing R target e of
     [] \<Rightarrow> (\<exists>e'. VisitExpr R target e = Inr e')
   | m # ms \<Rightarrow> VisitExpr R target e = Inl (Fatal m)"
proof (induction e)
  case (FloatImm t x)
  show ?case by (simp add: Let_def check_and_lower_def split: option.splits)
next
  case (Cast t v)
  then show ?case
    by (cases "missing R target v")
       (auto simp: Let_def check_and_lower_def split: option.splits)
next
  case (Load t bv i p)
  then show ?case
    by (cases "missing R target i"; cases "missing R target p")
       (auto simp: Let_def)
next
  case (BinaryOp opr t a b)
  then show ?case
    by (cases "missing R target a"; cases "missing R target b")
       (auto simp: Let_def check_and_lower_def split: option.splits)
qed simp_all

lemma VisitExprs_missing:
  "case missing_list R target es of
     [] \<Rightarrow> (\<exists>es'. VisitExprs R target es = Inr es')
   | m # ms \<Rightarrow> VisitExprs R target es = Inl (Fatal m)"
proof (induction es)
  case Nil
  show ?case by simp
next
  case (Cons e es)
  then show ?case
    using VisitExpr_missing [of R target e]
    by (cases "missing R target e"; cases "missing_list R target es") auto
qed

lemma VisitOptExpr_missing:
  "case missing_opt R target oe of
     [] \<Rightarrow> (\<exists>oe'. VisitOptExpr R target oe = Inr oe')
   | m # ms \<Rightarrow> VisitOptExpr R target oe = Inl (Fatal m)"
  using VisitExpr_missing [of R target "the oe"]
  by (cases oe) (auto split: list.splits)

lemma VisitStmt_missing:
  "case missing_stmt R target s of
     [] \<Rightarrow> (\<exists>s'. VisitStmt R target s = Inr s')
   | m # ms \<Rightarrow> VisitStmt R target s = Inl (Fatal m)"
proof (induction s)
  case (Evaluate v)
  show ?case
    using VisitExpr_missing [of R target v] by (auto split: list.splits)
next
  case (Store bv v i p)
  show ?case
    using VisitExpr_missing [of R target v] VisitExpr_missing [of R target i]
      VisitExpr_missing [of R target p]
    by (cases "missing R target v"; cases "missing R target i"; cases "missing R target p")
       auto
next
  case (Allocate bv t extents condition b new_expr free_function)
  then show ?case
    using VisitExprs_missing [of R target extents] VisitExpr_missing [of R target condition]
      VisitOptExpr_missing [of R target new_expr]
    by (cases "missing_list R target extents"; cases "missing_stmt R target b";
        cases "missing R target condition"; cases "missing_opt R target new_expr")
       (auto simp: Let_def)
qed

lemma cast_missing_fatal:
  "VisitExpr R target v = Inr v' \<Longrightarrow>
   GetTypeRegistered R (code t) \<or> GetTypeRegistered R (code (dtype v)) \<Longrightarrow>
   GetCastLowerFunc R target (code t) (code (dtype v)) = None \<Longrightarrow>
   VisitExpr R target (Cast t v) =
     Inl (Fatal (''Cast lowering function for target '' @ target @ '' destination type '' @
                 unsigned_str (unat (code t)) @ '' source type '' @
                 unsigned_str (unat (code (dtype v))) @ '' not found''))"
  by (simp add: Let_def check_and_lower_def cast_not_found_def)

lemma floatimm_missing_fatal:
  "GetTypeRegistered R (code t) \<Longrightarrow> GetFloatImmLowerFunc R target (code t) = None \<Longrightarrow>
   VisitExpr R target (FloatImm t x) =
     Inl (Fatal (''FloatImm lowering function for target '' @ target @ '' type '' @
                 unsigned_str (unat (code t)) @ '' not found''))"
  by (simp add: Let_def check_and_lower_def floatimm_not_found_def)

lemma op_missing_fatal:
  "VisitExpr R target a = Inr a' \<Longrightarrow> VisitExpr R target b = Inr b' \<Longrightarrow>
   GetTypeRegistered R (code t) \<Longrightarrow> GetOpLowerFunc R opr target (code t) = None \<Longrightarrow>
   VisitExpr R target (BinaryOp opr t a b) =
     Inl (Fatal (op_name opr @ '' lowering function for target '' @ target @ '' type '' @
                 unsigned_str (unat (code t)) @ '' not found''))"
  by (simp add: Let_def check_and_lower_def op_not_found_def)

lemma stmt_missing_fatal:
  "missing_stmt R target s = m # ms \<Longrightarrow> VisitStmt R target s = Inl (Fatal m)"
  using VisitStmt_missing [of R target s] by simp

text \<open>
  C2: a cast, a floating-point immediate or an operation that is to be lowered, and for
  which the registry has no lowering function for the target, ends the pass with a fatal
  diagnostic naming the kind of node, the target and the type code (for a cast both codes)
  in decimal; the node is not returned. For the whole pass: when some node of the tree
  lacks its lowering function, the pass returns no tree, only the diagnostic of the first
  such node the traversal reaches.
\<close>

theorem missing_function_fatal:
  "(VisitExpr R target v = Inr v' \<longrightarrow>
    GetTypeRegistered R (code t) \<or> GetTypeRegistered R (code (dtype v)) \<longrightarrow>
    GetCastLowerFunc R target (code t) (code (dtype v)) = None \<longrightarrow>
    VisitExpr R target (Cast t v) =
      Inl (Fatal (''Cast lowering function for target '' @ target @ '' destination type '' @
                  unsigned_str (unat (code t)) @ '' source type '' @
                  unsigned_str (unat (code (dtype v))) @ '' not found''))) \<and>
   (GetTypeRegistered R (code t) \<longrightarrow> GetFloatImmLowerFunc R target (code t) = None \<longrightarrow>
    VisitExpr R target (FloatImm t x) =
      Inl (Fatal (''FloatImm lowering function for target '' @ target @ '' type '' @
                  unsigned_str (unat (code t)) @ '' not found''))) \<and>
   (VisitExpr R target a = Inr a' \<longrightarrow> VisitExpr R target b = Inr b' \<longrightarrow>
    GetTypeRegistered R (code t) \<longrightarrow> GetOpLowerFunc R opr target (code t) = None \<longrightarrow>
    VisitExpr R target (BinaryOp opr t a b) =
      Inl (Fatal (op_name opr @ '' lowering function for target '' @ target @ '' type '' @
                  unsigned_str (unat (code t)) @ '' not found''))) \<and>
   (missing_stmt R target s = m # ms \<longrightarrow> VisitStmt R target s = Inl (Fatal m))"
proof (intro conjI impI)
  assume "VisitExpr R target v = Inr v'"
    and "GetTypeRegistered R (code t) \<or> GetTypeRegistered R (code (dtype v))"
    and "GetCastLowerFunc R target (code t) (code (dtype v)) = None"
  then show "VisitExpr R target (Cast t v) =
      Inl (Fatal (''Cast lowering function for target '' @ target @ '' destination type '' @
                  unsigned_str (unat (code t)) @ '' source type '' @
                  unsigned_str (unat (code (dtype v))) @ '' not found''))"
    by (rule cast_missing_fatal)
next
  assume "GetTypeRegistered R (code t)" and "GetFloatImmLowerFunc R target (code t) = None"
  then show "VisitExpr R target (FloatImm t x) =
      Inl (Fatal (''FloatImm lowering function for target '' @ target @ '' type '' @
                  unsigned_str (unat (code t)) @ '' not found''))"
    by (rule floatimm_missing_fatal)
next
  assume "VisitExpr R target a = Inr a'" and "VisitExpr R target b = Inr b'"
    and "GetTypeRegistered R (code t)" and "GetOpLowerFunc R opr target (code t) = None"
  then show "VisitExpr R target (BinaryOp opr t a b) =
      Inl (Fatal (op_name opr @ '' lowering function for target '' @ target @ '' type '' @
                  unsigned_str (unat (code t)) @ '' not found''))"
    by (rule op_missing_fatal)
next
  assume "missing_stmt R target s = m # ms"
  then show "VisitStmt R target s = Inl (Fatal m)"
    by (rule stmt_missing_fatal)
qed

theorem missing_function_fatal_witness:
  "VisitExpr example_registry ''llvm'' (Cast custom32 (FloatImm f32 float_1)) =
     Inr (Cast (UInt 32 1) (FloatImm f32 float_1)) \<and>
   VisitExpr example_registry ''llvm'' (Cast custom32 (FloatImm f32 float_2)) =
     Inr (Cast (UInt 32 1) (FloatImm f32 float_2)) \<and>
   GetTypeRegistered example_registry (code custom32) \<and>
   GetOpLowerFunc example_registry Mul ''llvm'' (code custom32) = None \<and>
   VisitExpr example_registry ''llvm''
     (BinaryOp Mul custom32 (Cast custom32 (FloatImm f32 float_1))
                            (Cast custom32 (FloatImm f32 float_2))) =
     Inl (Fatal ''Mul lowering function for target llvm type 200 not found'') \<and>
   missing_stmt example_registry ''cuda''
     (Store buf (Cast custom32 (FloatImm f32 float_1)) (IntImm i32 0)
        (BinaryOp LT custom32 (FloatImm custom32 float_1) (FloatImm custom32 float_2))) =
     [''Cast lowering function for target cuda destination type 200 source type 2 not found'',
      ''FloatImm lowering function for target cuda type 200 not found'',
      ''FloatImm lowering function for target cuda type 200 not found'',
      ''LT lowering function for target cuda type 200 not found''] \<and>
   VisitStmt example_registry ''cuda''
     (Store buf (Cast custom32 (FloatImm f32 float_1)) (IntImm i32 0)
        (BinaryOp LT custom32 (FloatImm custom32 float_1) (FloatImm custom32 float_2))) =
     Inl (Fatal
       ''Cast lowering function for target cuda destination type 200 source type 2 not found'')"
proof -
  have a: "VisitExpr example_registry ''llvm'' (Cast custom32 (FloatImm f32 float_1)) =
           Inr (Cast (UInt 32 1) (FloatImm f32 float_1))"
    by (simp add: example_registry_def custom32_def f32_def native_of_def check_and_lower_def)
  have b: "VisitExpr example_registry ''llvm'' (Cast custom32 (FloatImm f32 float_2)) =
           Inr (Cast (UInt 32 1) (FloatImm f32 float_2))"
    by (simp add: example_registry_def custom32_def f32_def native_of_def check_and_lower_def)
  have r: "GetTypeRegistered example_registry (code custom32)"
    by (simp add: example_registry_def custom32_def)
  have n: "GetOpLowerFunc example_registry Mul ''llvm'' (code custom32) = None"
    by (simp add: example_registry_def)
  have m: "missing_stmt example_registry ''cuda''
     (Store buf (Cast custom32 (FloatImm f32 float_1)) (IntImm i32 0)
        (BinaryOp LT custom32 (FloatImm custom32 float_1) (FloatImm custom32 float_2))) =
     [''Cast lowering function for target cuda destination type 200 source type 2 not found'',
      ''FloatImm lowering function for target cuda type 200 not found'',
      ''FloatImm lowering function for target cuda type 200 not found'',
      ''LT lowering function for target cuda type 200 not found'']"
    by (simp add: example_registry_def custom32_def f32_def op_not_found_def
          cast_not_found_def floatimm_not_found_def unsigned_str.simps)
  have u: "unsigned_str (unat (code custom32)) = ''200''"
    by (simp add: custom32_def unsigned_str.simps)
  note th = missing_function_fatal [where R = example_registry]
  show ?thesis
    using a b r n m u
      th [THEN conjunct2, THEN conjunct2, THEN conjunct1, rule_format, OF a b r n]
      th [THEN conjunct2, THEN conjunct2, THEN conjunct2, rule_format, OF m]
    by simp
qed

subsection \<open>What is left of the custom types\<close>

lemma cast_lower_native:
  "lower_funcs_native R target \<Longrightarrow> GetCastLowerFunc R target (code t) sc = Some f \<Longrightarrow>
   no_custom R v \<Longrightarrow> no_custom R (f (Cast t v))"
  unfolding lower_funcs_native_def by blast

lemma floatimm_lower_native:
  "lower_funcs_native R target \<Longrightarrow> GetFloatImmLowerFunc R target (code t) = Some f \<Longrightarrow>
   no_custom R (f (FloatImm t x))"
  unfolding lower_funcs_native_def by blast

lemma op_lower_native:
  "lower_funcs_native R target \<Longrightarrow> GetOpLowerFunc R opr target (code t) = Some f \<Longrightarrow>
   no_custom R a \<Longrightarrow> no_custom R b \<Longrightarrow> no_custom R (f (BinaryOp opr t a b))"
  unfolding lower_funcs_native_def by blast

lemma check_and_lower_Inr:
  "check_and_lower l msg e = Inr e' \<Longrightarrow> \<exists>f. l = Some f \<and> e' = f e"
  by (cases l) (simp_all add: check_and_lower_def)

lemma VisitExpr_no_custom:
  assumes U: "\<not> GetTypeRegistered R kDLUInt" and F: "lower_funcs_native R target"
  shows "confined R e \<Longrightarrow> VisitExpr R target e = Inr e' \<Longrightarrow> no_custom R e'"
proof (induction e arbitrary: e')
  case (Variable v)
  then show ?case by auto
next
  case (IntImm t x)
  then show ?case by auto
next
  case (FloatImm t x)
  then show ?case
    using floatimm_lower_native [OF F]
    by (auto simp: Let_def split: if_splits dest!: check_and_lower_Inr)
next
  case (Cast t v)
  from Cast.prems obtain v' where v': "VisitExpr R target v = Inr v'"
    by (cases "VisitExpr R target v") (simp_all add: Let_def)
  have nv: "no_custom R v'"
    using Cast.IH Cast.prems(1) v' by simp
  show ?case
    using Cast.prems(2) v' nv cast_lower_native [OF F]
    by (auto simp: Let_def split: if_splits dest!: check_and_lower_Inr)
next
  case (Load t bv i p)
  from Load.prems obtain i' where i': "VisitExpr R target i = Inr i'"
    by (cases "VisitExpr R target i") (simp_all add: Let_def)
  from Load.prems i' obtain p' where p': "VisitExpr R target p = Inr p'"
    by (cases "VisitExpr R target p") (simp_all add: Let_def)
  have n: "no_custom R i'" "no_custom R p'"
    using Load.IH Load.prems(1) i' p' by simp_all
  show ?case
    using Load.prems i' p' n U
    by (auto simp: Let_def UInt_def split: if_splits)
next
  case (BinaryOp opr t a b)
  from BinaryOp.prems obtain a' where a': "VisitExpr R target a = Inr a'"
    by (cases "VisitExpr R target a") (simp_all add: Let_def)
  from BinaryOp.prems a' obtain b' where b': "VisitExpr R target b = Inr b'"
    by (cases "VisitExpr R target b") (simp_all add: Let_def)
  have n: "no_custom R a'" "no_custom R b'"
    using BinaryOp.IH BinaryOp.prems(1) a' b' by simp_all
  show ?case
    using BinaryOp.prems(2) a' b' n op_lower_native [OF F]
    by (auto simp: Let_def split: if_splits dest!: check_and_lower_Inr)
qed

lemma VisitExprs_no_custom:
  assumes U: "\<not> GetTypeRegistered R kDLUInt" and F: "lower_funcs_native R target"
  shows "list_all (confined R) es \<Longrightarrow> VisitExprs R target es = Inr es' \<Longrightarrow>
         list_all (no_custom R) es'"
proof (induction es arbitrary: es')
  case Nil
  then show ?case by simp
next
  case (Cons e es)
  then show ?case
    using VisitExpr_no_custom [OF U F, of e]
    by (auto split: sum.splits)
qed

lemma VisitOptExpr_no_custom:
  assumes U: "\<not> GetTypeRegistered R kDLUInt" and F: "lower_funcs_native R target"
  shows "confined_opt R oe \<Longrightarrow> VisitOptExpr R target oe = Inr oe' \<Longrightarrow> no_custom_opt R oe'"
  using VisitExpr_no_custom [OF U F, of "the oe"]
  by (cases oe) (auto split: sum.splits)

lemma VisitStmt_no_custom:
  assumes U: "\<not> GetTypeRegistered R kDLUInt" and F: "lower_funcs_native R target"
  shows "confined_stmt R s \<Longrightarrow> VisitStmt R target s = Inr s' \<Longrightarrow> no_custom_stmt R s'"
proof (induction s arbitrary: s')
  case (Evaluate v)
  then show ?case
    using VisitExpr_no_custom [OF U F, of v]
    by (auto split: sum.splits)
next
  case (Store bv v i p)
  then show ?case
    using VisitExpr_no_custom [OF U F, of v] VisitExpr_no_custom [OF U F, of i]
      VisitExpr_no_custom [OF U F, of p]
    by (auto split: sum.splits)
next
  case (Allocate bv t extents condition b new_expr free_function)
  then show ?case
    using VisitExprs_no_custom [OF U F, of extents]
      VisitExpr_no_custom [OF U F, of condition]
      VisitOptExpr_no_custom [OF U F, of new_expr] U
    by (auto simp: Let_def UInt_def split: sum.splits if_splits)
qed

lemma native_of_code: "code (native_of t) \<noteq> 200"
  by (simp add: native_of_def UInt_def kDLUInt_def)

lemma example_registry_native: "lower_funcs_native example_registry target"
  unfolding lower_funcs_native_def
  by (auto simp: example_registry_def native_of_code split: if_splits)

lemma example_registry_UInt: "\<not> GetTypeRegistered example_registry kDLUInt"
  by (simp add: example_registry_def kDLUInt_def)

text \<open>
  C1, as the source has it: the returned tree carries no registered type code when every
  required lowering function is registered, the unsigned-integer code is not a
  registered one, the registered lowering functions keep their contract, and the custom
  codes of the input sit on the kinds the source overrides (casts, floating-point
  immediates, loads, allocations and the thirteen operations), not on variables or
  integer immediates.
\<close>

theorem no_residual_custom_types:
  assumes "\<not> GetTypeRegistered R kDLUInt" and "lower_funcs_native R target"
    and "confined_stmt R s" and "missing_stmt R target s = []"
  shows "\<exists>s'. VisitStmt R target s = Inr s' \<and> no_custom_stmt R s'"
proof -
  from VisitStmt_missing [of R target s] assms(4)
  obtain s' where s': "VisitStmt R target s = Inr s'" by auto
  with VisitStmt_no_custom [OF assms(1,2,3)] show ?thesis by blast
qed

theorem no_residual_custom_types_witness:
  "\<not> GetTypeRegistered example_registry kDLUInt \<and>
   lower_funcs_native example_registry ''llvm'' \<and>
   confined_stmt example_registry
     (Evaluate (BinaryOp Add custom32 (Cast custom32 (FloatImm f32 float_1))
                                      (Cast custom32 (FloatImm f32 float_2)))) \<and>
   missing_stmt example_registry ''llvm''
     (Evaluate (BinaryOp Add custom32 (Cast custom32 (FloatImm f32 float_1))
                                      (Cast custom32 (FloatImm f32 float_2)))) = [] \<and>
   (\<exists>s'. VisitStmt example_registry ''llvm''
           (Evaluate (BinaryOp Add custom32 (Cast custom32 (FloatImm f32 float_1))
                                            (Cast custom32 (FloatImm f32 float_2)))) = Inr s' \<and>
         no_custom_stmt example_registry s')"
proof -
  have c: "confined_stmt example_registry
     (Evaluate (BinaryOp Add custom32 (Cast custom32 (FloatImm f32 float_1))
                                      (Cast custom32 (FloatImm f32 float_2))))"
    by simp
  have m: "missing_stmt example_registry ''llvm''
     (Evaluate (BinaryOp Add custom32 (Cast custom32 (FloatImm f32 float_1))
                                      (Cast custom32 (FloatImm f32 float_2)))) = []"
    by (simp add: example_registry_def custom32_def f32_def)
  show ?thesis
    using example_registry_UInt example_registry_native [of "''llvm''"] c m
      no_residual_custom_types [OF example_registry_UInt example_registry_native c m]
    by simp
qed

text \<open>
  C1 without the restriction to the overridden kinds fails on a variable of a registered
  type: the source has no override for variables, every required lowering function is
  registered (none is required), and the variable comes back with its custom code.
\<close>

theorem residual_custom_variable:
  "missing_stmt example_registry ''llvm'' (Evaluate (Variable xc)) = [] \<and>
   VisitStmt example_registry ''llvm'' (Evaluate (Variable xc)) = Inr (Evaluate (Variable xc)) \<and>
   GetTypeRegistered example_registry (code (dtype (Variable xc))) \<and>
   \<not> no_custom_stmt example_registry (Evaluate (Variable xc))"
  by (simp add: example_registry_def xc_def custom32_def)

subsection \<open>Children first\<close>

text \<open>
  C7, as the source has it: the traversal is post-order for every kind of node. The
  decision to lower a node is taken on the type codes of the node as it comes in (for a
  cast also on the code of its operand before rewriting). The children are rewritten
  first: a failure in an operand ends the visit before anything is looked up for the
  node, and a cast or an operation is handed to its lowering function rebuilt over the
  rewritten operands, as a load, an allocation, a store and an evaluation are rebuilt over
  their rewritten children. A rewritten operand carries no registered code when the
  unsigned-integer code is not a registered one, the registered lowering functions keep
  their contract, and the custom codes of the operand sit on the kinds the source
  overrides.
\<close>

theorem lowering_after_children:
  "(VisitExpr R target v = Inr v' \<longrightarrow>
      VisitExpr R target (Cast t v) =
        (if GetTypeRegistered R (code t) \<or> GetTypeRegistered R (code (dtype v))
         then check_and_lower (GetCastLowerFunc R target (code t) (code (dtype v)))
                (cast_not_found target (code t) (code (dtype v))) (Cast t v')
         else Inr (Cast t v'))) \<and>
   (VisitExpr R target v = Inl err \<longrightarrow> VisitExpr R target (Cast t v) = Inl err) \<and>
   (VisitExpr R target a = Inr a' \<longrightarrow> VisitExpr R target b = Inr b' \<longrightarrow>
      VisitExpr R target (BinaryOp opr t a b) =
        (if GetTypeRegistered R (code t)
         then check_and_lower (GetOpLowerFunc R opr target (code t))
                (op_not_found opr target (code t)) (BinaryOp opr t a' b')
         else Inr (BinaryOp opr t a' b'))) \<and>
   (VisitExpr R target a = Inl err \<longrightarrow> VisitExpr R target (BinaryOp opr t a b) = Inl err) \<and>
   (VisitExpr R target a = Inr a' \<longrightarrow> VisitExpr R target b = Inl err \<longrightarrow>
      VisitExpr R target (BinaryOp opr t a b) = Inl err) \<and>
   (VisitExpr R target i = Inr i' \<longrightarrow> VisitExpr R target p = Inr p' \<longrightarrow>
      VisitExpr R target (Load t bv i p) =
        Inr (Load (if GetTypeRegistered R (code t) then UInt (bits t) 1 else t) bv i' p')) \<and>
   (VisitExprs R target extents = Inr extents' \<longrightarrow> VisitStmt R target s = Inr s' \<longrightarrow>
    VisitExpr R target condition = Inr condition' \<longrightarrow>
    VisitOptExpr R target new_expr = Inr new_expr' \<longrightarrow>
      VisitStmt R target (Allocate bv t extents condition s new_expr free_function) =
        Inr (Allocate bv (if GetTypeRegistered R (code t) then UInt (bits t) (lanes t) else t)
               extents' condition' s' new_expr' free_function)) \<and>
   (VisitExpr R target v = Inr v' \<longrightarrow> VisitExpr R target i = Inr i' \<longrightarrow>
    VisitExpr R target p = Inr p' \<longrightarrow>
      VisitStmt R target (Store bv v i p) = Inr (Store bv v' i' p')) \<and>
   (VisitExpr R target v = Inr v' \<longrightarrow> VisitStmt R target (Evaluate v) = Inr (Evaluate v')) \<and>
   (\<not> GetTypeRegistered R kDLUInt \<longrightarrow> lower_funcs_native R target \<longrightarrow> confined R e \<longrightarrow>
    VisitExpr R target e = Inr e' \<longrightarrow> no_custom R e')"
  using VisitExpr_no_custom [of R target e e']
  by (simp add: Let_def)

theorem lowering_after_children_witness:
  "VisitExpr example_registry ''llvm'' (FloatImm custom32 float_1) =
     Inr (IntImm (UInt 32 1) float_1) \<and>
   VisitExpr example_registry ''llvm'' (Cast f32 (FloatImm custom32 float_1)) =
     check_and_lower (Some cast_lower) (cast_not_found ''llvm'' 2 200)
       (Cast f32 (IntImm (UInt 32 1) float_1)) \<and>
   VisitExpr example_registry ''llvm''
     (BinaryOp Mul custom32 (FloatImm f32 float_1) (FloatImm f32 float_2)) =
     Inl (Fatal ''Mul lowering function for target llvm type 200 not found'') \<and>
   VisitExpr example_registry ''llvm''
     (Cast custom32 (BinaryOp Mul custom32 (FloatImm f32 float_1) (FloatImm f32 float_2))) =
     Inl (Fatal ''Mul lowering function for target llvm type 200 not found'') \<and>
   VisitExpr example_registry ''llvm'' (Cast custom32 (FloatImm f32 float_1)) =
     Inr (Cast (UInt 32 1) (FloatImm f32 float_1)) \<and>
   VisitExpr example_registry ''llvm'' (Cast custom32 (FloatImm f32 float_2)) =
     Inr (Cast (UInt 32 1) (FloatImm f32 float_2)) \<and>
   VisitExpr example_registry ''llvm''
     (BinaryOp Add custom32 (Cast custom32 (FloatImm f32 float_1))
                            (Cast custom32 (FloatImm f32 float_2))) =
     check_and_lower (Some add_lower) (op_not_found Add ''llvm'' 200)
       (BinaryOp Add custom32 (Cast (UInt 32 1) (FloatImm f32 float_1))
                              (Cast (UInt 32 1) (FloatImm f32 float_2))) \<and>
   VisitExpr example_registry ''llvm''
     (BinaryOp Add custom32
        (BinaryOp Mul custom32 (FloatImm f32 float_1) (FloatImm f32 float_2))
        (Cast custom32 (FloatImm f32 float_2))) =
     Inl (Fatal ''Mul lowering function for target llvm type 200 not found'') \<and>
   VisitExpr example_registry ''llvm''
     (BinaryOp Add custom32 (Cast custom32 (FloatImm f32 float_1))
        (BinaryOp Mul custom32 (FloatImm f32 float_1) (FloatImm f32 float_2))) =
     Inl (Fatal ''Mul lowering function for target llvm type 200 not found'') \<and>
   VisitExpr example_registry ''llvm'' (IntImm bool1 1) = Inr (IntImm bool1 1) \<and>
   VisitExpr example_registry ''llvm''
     (Load custom16x4 buf (Cast i32 (FloatImm custom32 float_1)) (IntImm bool1 1)) =
     Inr (Load (UInt 16 1) buf (Cast i32 (IntImm (UInt 32 1) float_1)) (IntImm bool1 1)) \<and>
   VisitExprs example_registry ''llvm'' [FloatImm custom32 float_1] =
     Inr [IntImm (UInt 32 1) float_1] \<and>
   VisitOptExpr example_registry ''llvm'' (Some (FloatImm custom32 float_1)) =
     Inr (Some (IntImm (UInt 32 1) float_1)) \<and>
   VisitStmt example_registry ''llvm'' (Evaluate (FloatImm custom32 float_1)) =
     Inr (Evaluate (IntImm (UInt 32 1) float_1)) \<and>
   VisitStmt example_registry ''llvm''
     (Store buf (FloatImm custom32 float_1) (IntImm bool1 1) (IntImm bool1 1)) =
     Inr (Store buf (IntImm (UInt 32 1) float_1) (IntImm bool1 1) (IntImm bool1 1)) \<and>
   VisitStmt example_registry ''llvm''
     (Allocate buf custom16x4 [FloatImm custom32 float_1] (IntImm bool1 1)
        (Evaluate (FloatImm custom32 float_1)) (Some (FloatImm custom32 float_1)) ''nop'') =
     Inr (Allocate buf (UInt 16 4) [IntImm (UInt 32 1) float_1] (IntImm bool1 1)
        (Evaluate (IntImm (UInt 32 1) float_1)) (Some (IntImm (UInt 32 1) float_1)) ''nop'') \<and>
   \<not> GetTypeRegistered example_registry kDLUInt \<and>
   lower_funcs_native example_registry ''llvm'' \<and>
   confined example_registry (Cast custom32 (FloatImm f32 float_1)) \<and>
   no_custom example_registry (Cast (UInt 32 1) (FloatImm f32 float_1))"
proof -
  have v: "VisitExpr example_registry ''llvm'' (FloatImm custom32 float_1) =
           Inr (IntImm (UInt 32 1) float_1)"
    by (simp add: example_registry_def custom32_def native_of_def check_and_lower_def)
  have f: "VisitExpr example_registry ''llvm''
             (BinaryOp Mul custom32 (FloatImm f32 float_1) (FloatImm f32 float_2)) =
           Inl (Fatal ''Mul lowering function for target llvm type 200 not found'')"
    by (simp add: example_registry_def custom32_def f32_def check_and_lower_def
          op_not_found_def unsigned_str.simps)
  have a: "VisitExpr example_registry ''llvm'' (Cast custom32 (FloatImm f32 float_1)) =
           Inr (Cast (UInt 32 1) (FloatImm f32 float_1))"
    by (simp add: example_registry_def custom32_def f32_def native_of_def check_and_lower_def)
  have b: "VisitExpr example_registry ''llvm'' (Cast custom32 (FloatImm f32 float_2)) =
           Inr (Cast (UInt 32 1) (FloatImm f32 float_2))"
    by (simp add: example_registry_def custom32_def f32_def native_of_def check_and_lower_def)
  have p: "VisitExpr example_registry ''llvm'' (IntImm bool1 1) = Inr (IntImm bool1 1)"
    by simp
  have es: "VisitExprs example_registry ''llvm'' [FloatImm custom32 float_1] =
            Inr [IntImm (UInt 32 1) float_1]"
    using v by simp
  have ne: "VisitOptExpr example_registry ''llvm'' (Some (FloatImm custom32 float_1)) =
            Inr (Some (IntImm (UInt 32 1) float_1))"
    using v by simp
  have ca: "confined example_registry (Cast custom32 (FloatImm f32 float_1))"
    by simp
  note U = example_registry_UInt
  note F = example_registry_native [of "''llvm''"]
  note th = lowering_after_children [where R = example_registry and target = "''llvm''"]
  have cast_eq: "VisitExpr example_registry ''llvm'' (Cast f32 (FloatImm custom32 float_1)) =
     check_and_lower (Some cast_lower) (cast_not_found ''llvm'' 2 200)
       (Cast f32 (IntImm (UInt 32 1) float_1))"
    using th [where t = f32 and v = "FloatImm custom32 float_1"
                and v' = "IntImm (UInt 32 1) float_1", THEN conjunct1, rule_format, OF v]
    by (simp add: example_registry_def custom32_def f32_def)
  have cast_err: "VisitExpr example_registry ''llvm''
       (Cast custom32 (BinaryOp Mul custom32 (FloatImm f32 float_1) (FloatImm f32 float_2))) =
     Inl (Fatal ''Mul lowering function for target llvm type 200 not found'')"
    using th [where t = custom32, THEN conjunct2, THEN conjunct1, rule_format, OF f] .
  have op_eq: "VisitExpr example_registry ''llvm''
       (BinaryOp Add custom32 (Cast custom32 (FloatImm f32 float_1))
                              (Cast custom32 (FloatImm f32 float_2))) =
     check_and_lower (Some add_lower) (op_not_found Add ''llvm'' 200)
       (BinaryOp Add custom32 (Cast (UInt 32 1) (FloatImm f32 float_1))
                              (Cast (UInt 32 1) (FloatImm f32 float_2)))"
    using th [where opr = Add and t = custom32, THEN conjunct2, THEN conjunct2,
              THEN conjunct1, rule_format, OF a b]
    by (simp add: example_registry_def custom32_def)
  have op_err_a: "VisitExpr example_registry ''llvm''
       (BinaryOp Add custom32
          (BinaryOp Mul custom32 (FloatImm f32 float_1) (FloatImm f32 float_2))
          (Cast custom32 (FloatImm f32 float_2))) =
     Inl (Fatal ''Mul lowering function for target llvm type 200 not found'')"
    using th [where opr = Add and t = custom32
                and b = "Cast custom32 (FloatImm f32 float_2)",
              THEN conjunct2, THEN conjunct2, THEN conjunct2, THEN conjunct1, rule_format,
              OF f] .
  have op_err_b: "VisitExpr example_registry ''llvm''
       (BinaryOp Add custom32 (Cast custom32 (FloatImm f32 float_1))
          (BinaryOp Mul custom32 (FloatImm f32 float_1) (FloatImm f32 float_2))) =
     Inl (Fatal ''Mul lowering function for target llvm type 200 not found'')"
    using th [where opr = Add and t = custom32, THEN conjunct2, THEN conjunct2,
              THEN conjunct2, THEN conjunct2, THEN conjunct1, rule_format, OF a f] .
  have i: "VisitExpr example_registry ''llvm'' (Cast i32 (FloatImm custom32 float_1)) =
           Inr (Cast i32 (IntImm (UInt 32 1) float_1))"
    using th [where t = i32 and v = "FloatImm custom32 float_1"
                and v' = "IntImm (UInt 32 1) float_1", THEN conjunct1, rule_format, OF v]
    by (simp add: example_registry_def custom32_def i32_def native_of_def
          check_and_lower_def)
  have load_eq: "VisitExpr example_registry ''llvm''
       (Load custom16x4 buf (Cast i32 (FloatImm custom32 float_1)) (IntImm bool1 1)) =
     Inr (Load (UInt 16 1) buf (Cast i32 (IntImm (UInt 32 1) float_1)) (IntImm bool1 1))"
    using th [where t = custom16x4 and bv = buf, THEN conjunct2, THEN conjunct2,
              THEN conjunct2, THEN conjunct2, THEN conjunct2, THEN conjunct1, rule_format,
              OF i p]
    by (simp add: example_registry_def custom16x4_def)
  have eval_eq: "VisitStmt example_registry ''llvm'' (Evaluate (FloatImm custom32 float_1)) =
     Inr (Evaluate (IntImm (UInt 32 1) float_1))"
    using th [THEN conjunct2, THEN conjunct2, THEN conjunct2, THEN conjunct2,
              THEN conjunct2, THEN conjunct2, THEN conjunct2, THEN conjunct2,
              THEN conjunct1, rule_format, OF v] .
  have store_eq: "VisitStmt example_registry ''llvm''
       (Store buf (FloatImm custom32 float_1) (IntImm bool1 1) (IntImm bool1 1)) =
     Inr (Store buf (IntImm (UInt 32 1) float_1) (IntImm bool1 1) (IntImm bool1 1))"
    using th [where bv = buf, THEN conjunct2, THEN conjunct2, THEN conjunct2,
              THEN conjunct2, THEN conjunct2, THEN conjunct2, THEN conjunct2,
              THEN conjunct1, rule_format, OF v p p] .
  have alloc_eq: "VisitStmt example_registry ''llvm''
       (Allocate buf custom16x4 [FloatImm custom32 float_1] (IntImm bool1 1)
          (Evaluate (FloatImm custom32 float_1)) (Some (FloatImm custom32 float_1)) ''nop'') =
     Inr (Allocate buf (UInt 16 4) [IntImm (UInt 32 1) float_1] (IntImm bool1 1)
          (Evaluate (IntImm (UInt 32 1) float_1)) (Some (IntImm (UInt 32 1) float_1)) ''nop'')"
    using th [where t = custom16x4 and bv = buf and free_function = "''nop''",
              THEN conjunct2, THEN conjunct2, THEN conjunct2, THEN conjunct2,
              THEN conjunct2, THEN conjunct2, THEN conjunct1, rule_format,
              OF es eval_eq p ne]
    by (simp add: example_registry_def custom16x4_def)
  have native: "no_custom example_registry (Cast (UInt 32 1) (FloatImm f32 float_1))"
    using th [THEN conjunct2, THEN conjunct2, THEN conjunct2, THEN conjunct2,
              THEN conjunct2, THEN conjunct2, THEN conjunct2, THEN conjunct2,
              THEN conjunct2, rule_format, OF U F ca a] .
  show ?thesis
    using v cast_eq f cast_err a b op_eq op_err_a op_err_b p load_eq es ne eval_eq store_eq
      alloc_eq U F ca native
    by simp
qed

text \<open>
  C7 without the restriction to the overridden kinds fails on operands that are variables
  of a registered type: every required lowering function is registered and returns a node
  of a native type, and the lowering function of \<open>Add\<close> is applied to a node whose
  children carry the custom code.
\<close>

theorem lowering_given_custom_children:
  "missing example_registry ''llvm'' (BinaryOp Add custom32 (Variable xc) (Variable xc)) = [] \<and>
   GetOpLowerFunc example_registry Add ''llvm'' (code custom32) = Some add_lower \<and>
   VisitExpr example_registry ''llvm'' (BinaryOp Add custom32 (Variable xc) (Variable xc)) =
     Inr (add_lower (BinaryOp Add custom32 (Variable xc) (Variable xc))) \<and>
   GetTypeRegistered example_registry (code (dtype (Variable xc))) \<and>
   \<not> GetTypeRegistered example_registry
       (code (dtype (add_lower (BinaryOp Add custom32 (Variable xc) (Variable xc)))))"
  by (simp add: example_registry_def xc_def custom32_def native_of_def check_and_lower_def
        UInt_def kDLUInt_def)


end
